theory Spec2Isabelle
  imports Main
begin

section \<open>JavaScript values and errors\<close>

text \<open>
  The model is of the module at lines 1 to 194 of \<^verbatim>\<open>src/lib/index.js\<close>; the file goes on
  with an earlier revision of the same module, whose promise chains are the same.

  The values that cross the interface of the module. \<open>Native\<close> is an object of
  the data-mapper runtime (a bookshelf model or collection, which has a \<^verbatim>\<open>toJSON\<close> method);
  \<open>Plain\<close> is a plain data object (a filter, an options bag, row data, or the result of
  \<^verbatim>\<open>toJSON\<close>), which has no methods.
\<close>

datatype ('n, 'p) js =
    JsUndefined
  | JsNull
  | JsBool bool
  | JsNum int
  | JsStr string
  | Native 'n
  | Plain 'p

text \<open>JavaScript's truthiness, as tested by \<^verbatim>\<open>!x\<close>.\<close>

fun truthy :: "('n, 'p) js \<Rightarrow> bool" where
  "truthy JsUndefined = False"
| "truthy JsNull = False"
| "truthy (JsBool b) = b"
| "truthy (JsNum n) = (n \<noteq> 0)"
| "truthy (JsStr s) = (s \<noteq> [])"
| "truthy (Native n) = True"
| "truthy (Plain p) = True"

text \<open>
  The error values that can be the reason of a rejected promise or be thrown. The first four
  are instances of the error classes the bookshelf handle exposes
  (\<^verbatim>\<open>bookshelf.NotFoundError\<close>, \<^verbatim>\<open>bookshelf.EmptyError\<close>, \<^verbatim>\<open>bookshelf.NoRowsDeletedError\<close>,
  \<^verbatim>\<open>bookshelf.NoRowsUpdatedError\<close>); their argument is whatever the library put in the error
  (message, stack, cause). The next four are the classes of \<^verbatim>\<open>quantal-errors\<close>
  (\<^verbatim>\<open>CommonErrors\<close>), built from a message. \<open>TypeError\<close> is JavaScript's own; \<open>OtherError\<close> is
  any other thrown value. \<^verbatim>\<open>err instanceof bookshelf.NotFoundError\<close> is the discriminator
  \<open>is_Bookshelf_NotFoundError\<close>, and so on.
\<close>

datatype 'x error =
    is_Bookshelf_NotFoundError: Bookshelf_NotFoundError 'x
  | is_Bookshelf_EmptyError: Bookshelf_EmptyError 'x
  | is_Bookshelf_NoRowsDeletedError: Bookshelf_NoRowsDeletedError 'x
  | is_Bookshelf_NoRowsUpdatedError: Bookshelf_NoRowsUpdatedError 'x
  | IllegalArgumentError string
  | NotFoundError string
  | NoRowsDeletedError string
  | NoRowsUpdatedError string
  | TypeError string
  | OtherError 'x

section \<open>Promises\<close>

text \<open>
  A settled promise: \<open>Inl e\<close> is rejected with reason \<open>e\<close>, \<open>Inr v\<close> is fulfilled with \<open>v\<close>.
  \<^verbatim>\<open>Promise.reject(e)\<close> is \<open>Inl e\<close>; a handler that returns \<open>v\<close> gives \<open>Inr v\<close>, one that throws
  \<open>e\<close> gives \<open>Inl e\<close>.
\<close>

type_synonym ('n, 'p, 'x) promise = "'x error + ('n, 'p) js"

text \<open>
  The links of a promise chain: \<^verbatim>\<open>.then(f)\<close>, Bluebird's filtered \<^verbatim>\<open>.catch(Class, h)\<close> and the
  plain \<^verbatim>\<open>.catch(h)\<close>. Each link acts on the promise the previous link returned, so a
  rejection produced by one catch handler reaches the catch links after it.
\<close>

datatype ('n, 'p, 'x) link =
    Then "('n, 'p) js \<Rightarrow> ('n, 'p, 'x) promise"
  | Catch "'x error \<Rightarrow> bool" "'x error \<Rightarrow> ('n, 'p, 'x) promise"
  | CatchAll "'x error \<Rightarrow> ('n, 'p, 'x) promise"

fun attach :: "('n, 'p, 'x) link \<Rightarrow> ('n, 'p, 'x) promise \<Rightarrow> ('n, 'p, 'x) promise" where
  "attach (Then f) promise = (case promise of Inl e \<Rightarrow> Inl e | Inr v \<Rightarrow> f v)"
| "attach (Catch instanceof h) promise =
     (case promise of Inl e \<Rightarrow> (if instanceof e then h e else Inl e) | Inr v \<Rightarrow> Inr v)"
| "attach (CatchAll h) promise = (case promise of Inl e \<Rightarrow> h e | Inr v \<Rightarrow> Inr v)"

definition chain :: "('n, 'p, 'x) promise \<Rightarrow> ('n, 'p, 'x) link list \<Rightarrow> ('n, 'p, 'x) promise" where
  "chain promise links = fold attach links promise"

section \<open>The runtime handle and the world\<close>

text \<open>
  The Model Definition: what \<^verbatim>\<open>ModelBase.extend({validate: validations}, {...})\<close> returns. Its
  only data is the validation schema; the static operations are the functions below.
\<close>

record ('n, 'p) model_def =
  validate :: "('n, 'p) js"

text \<open>The operations by name. \<open>FindWhere\<close> has no static method of its own in the library.\<close>

datatype operation =
    FindOne | Create | Destroy | FindAll | FindWhere | FindById | FindOrCreate | Update | Upsert

text \<open>
  The calls the shim makes into the external libraries, in the order it makes them:
  \<^verbatim>\<open>require('bookshelf-modelbase')(bookshelf, params)\<close>,
  \<^verbatim>\<open>bookshelf.plugin(require('bookshelf-modelbase').pluggable)\<close>, and
  \<^verbatim>\<open>bookshelf.Model.prototype.constructor.<name>.apply(this, arguments)\<close>.
\<close>

datatype ('n, 'p) call =
    Require_modelbase "('n, 'p) js"
  | Plugin_pluggable
  | Static_call operation "('n, 'p) model_def" "('n, 'p) js list"

text \<open>
  The bookshelf handle. \<open>Model_static\<close> is the settled promise that the static method of the
  given name returns when applied to \<open>this\<close> and the argument list; it may depend on every
  call made before (the state of the runtime and of the database). The static methods are
  asynchronous: a call returns a promise, which settles as rejected or fulfilled. \<open>toJSON\<close>
  is the \<^verbatim>\<open>toJSON\<close> method of the runtime's models and collections.
\<close>

record ('n, 'p, 'x) bookshelf =
  Model_static :: "('n, 'p) call list \<Rightarrow> operation \<Rightarrow> ('n, 'p) model_def \<Rightarrow> ('n, 'p) js list
                     \<Rightarrow> ('n, 'p, 'x) promise"
  toJSON :: "'n \<Rightarrow> 'p"

text \<open>
  The world an operation runs in: the Model Definition it is called on (\<^verbatim>\<open>this\<close>) and the
  calls made into the external libraries so far.
\<close>

record ('n, 'p) world =
  this_model :: "('n, 'p) model_def"
  external_calls :: "('n, 'p) call list"

section \<open>Pieces of the function bodies\<close>

text \<open>A parameter read from \<^verbatim>\<open>arguments\<close>: a position that was not passed is \<^verbatim>\<open>undefined\<close>.\<close>

definition param :: "('n, 'p) js list \<Rightarrow> nat \<Rightarrow> ('n, 'p) js" where
  "param arguments i = (if i < length arguments then arguments ! i else JsUndefined)"

text \<open>A default parameter value, \<^verbatim>\<open>(x = d)\<close>: used when the argument is \<^verbatim>\<open>undefined\<close>.\<close>

definition default_param :: "('n, 'p) js \<Rightarrow> ('n, 'p) js \<Rightarrow> ('n, 'p) js" where
  "default_param v d = (case v of JsUndefined \<Rightarrow> d | _ \<Rightarrow> v)"

text \<open>
  \<^verbatim>\<open>model.toJSON()\<close> on a truthy value: a runtime object answers with its plain
  representation; any other value has no such method and the call throws a TypeError.
\<close>

definition call_toJSON :: "('n, 'p, 'x) bookshelf \<Rightarrow> ('n, 'p) js \<Rightarrow> ('n, 'p, 'x) promise" where
  "call_toJSON bookshelf model =
     (case model of
        Native n \<Rightarrow> Inr (Plain (toJSON bookshelf n))
      | _ \<Rightarrow> Inl (TypeError ''model.toJSON is not a function''))"

text \<open>
  \<^verbatim>\<open>bookshelf.Model.prototype.constructor.<name>.apply(this, arguments)\<close>: the whole argument
  list goes to the library, which answers with a promise; the call is recorded.
\<close>

definition apply_static ::
  "('n, 'p, 'x) bookshelf \<Rightarrow> operation \<Rightarrow> ('n, 'p) js list \<Rightarrow> ('n, 'p) world
     \<Rightarrow> ('n, 'p, 'x) promise \<times> ('n, 'p) world" where
  "apply_static bookshelf name arguments w =
     (Model_static bookshelf (external_calls w) name (this_model w) arguments,
      w\<lparr>external_calls := external_calls w @ [Static_call name (this_model w) arguments]\<rparr>)"

section \<open>The factory\<close>

text \<open>
  \<^verbatim>\<open>BaseModel(bookshelf, params, validations)\<close>, lines 13 to 20 and 191. The handle is an
  object or missing (\<open>None\<close> is \<^verbatim>\<open>null\<close> or \<^verbatim>\<open>undefined\<close>), as its JSDoc type says. A throw is
  \<open>Inl\<close>; the second component is the list of external calls after the call.
\<close>

definition BaseModel ::
  "('n, 'p, 'x) bookshelf option \<Rightarrow> ('n, 'p) js \<Rightarrow> ('n, 'p) js \<Rightarrow> ('n, 'p) call list
     \<Rightarrow> ('x error + ('n, 'p) model_def) \<times> ('n, 'p) call list" where
  "BaseModel bookshelf params validations calls =
     (case bookshelf of
        None \<Rightarrow>
          (Inl (IllegalArgumentError ''An initialised instance of bookshelf is required''), calls)
      | Some b \<Rightarrow>
          (Inr \<lparr>validate = validations\<rparr>,
           calls @ [Require_modelbase params, Plugin_pluggable]))"

section \<open>The operations\<close>

text \<open>
  Each operation takes the handle the factory closed over, the translation utility
  \<^verbatim>\<open>CommonErrors.utils.bookshelfToApp\<close> (of the package \<^verbatim>\<open>quantal-errors\<close>, which is not part
  of this repository: it is a parameter), the argument list and the world, and returns the
  settled promise and the world after the call. In \<^verbatim>\<open>err => Promise.reject(bookshelfToApp(err))\<close>
  the value the utility returns, or the one it throws, is the reason of the rejection.
\<close>

definition findOne ::
  "('n, 'p, 'x) bookshelf \<Rightarrow> ('x error \<Rightarrow> 'x error) \<Rightarrow> ('n, 'p) js list \<Rightarrow> ('n, 'p) world
     \<Rightarrow> ('n, 'p, 'x) promise \<times> ('n, 'p) world" where
  "findOne bookshelf bookshelfToApp arguments w =
     (let bConvertResultToJson = default_param (param arguments 2) (JsBool True) in
      case apply_static bookshelf FindOne arguments w of (promise, w') \<Rightarrow>
        (chain promise
          [Then (\<lambda>model.
             if \<not> truthy bConvertResultToJson then Inr model
             else if \<not> truthy model then Inr JsNull
             else call_toJSON bookshelf model),
           Catch is_Bookshelf_NotFoundError (\<lambda>_. Inl (NotFoundError ''NotFoundError'')),
           Catch is_Bookshelf_EmptyError (\<lambda>_. Inl (NotFoundError ''NotFoundError'')),
           CatchAll (\<lambda>err. Inl (bookshelfToApp err))],
         w'))"

definition create ::
  "('n, 'p, 'x) bookshelf \<Rightarrow> ('x error \<Rightarrow> 'x error) \<Rightarrow> ('n, 'p) js list \<Rightarrow> ('n, 'p) world
     \<Rightarrow> ('n, 'p, 'x) promise \<times> ('n, 'p) world" where
  "create bookshelf bookshelfToApp arguments w =
     (let bConvertResultToJson = default_param (param arguments 2) (JsBool True) in
      case apply_static bookshelf Create arguments w of (promise, w') \<Rightarrow>
        (chain promise
          [Then (\<lambda>model.
             if \<not> truthy bConvertResultToJson then Inr model
             else if \<not> truthy model then Inr JsNull
             else call_toJSON bookshelf model),
           Catch is_Bookshelf_NotFoundError (\<lambda>_. Inl (NotFoundError ''NotFoundError'')),
           Catch is_Bookshelf_EmptyError (\<lambda>_. Inl (NotFoundError ''NotFoundError'')),
           CatchAll (\<lambda>err. Inl (bookshelfToApp err))],
         w'))"

definition destroy ::
  "('n, 'p, 'x) bookshelf \<Rightarrow> ('x error \<Rightarrow> 'x error) \<Rightarrow> ('n, 'p) js list \<Rightarrow> ('n, 'p) world
     \<Rightarrow> ('n, 'p, 'x) promise \<times> ('n, 'p) world" where
  "destroy bookshelf bookshelfToApp arguments w =
     (let bConvertResultToJson = default_param (param arguments 1) (JsBool True) in
      case apply_static bookshelf Destroy arguments w of (promise, w') \<Rightarrow>
        (chain promise
          [Then (\<lambda>model.
             if \<not> truthy bConvertResultToJson then Inr model
             else if \<not> truthy model then Inr JsNull
             else call_toJSON bookshelf model),
           Catch is_Bookshelf_NotFoundError (\<lambda>_. Inl (NotFoundError ''NotFoundError'')),
           Catch is_Bookshelf_NoRowsDeletedError
             (\<lambda>_. Inl (NoRowsDeletedError ''NoRowsDeletedError'')),
           CatchAll (\<lambda>err. Inl (bookshelfToApp err))],
         w'))"

definition findAll ::
  "('n, 'p, 'x) bookshelf \<Rightarrow> ('x error \<Rightarrow> 'x error) \<Rightarrow> ('n, 'p) js list \<Rightarrow> ('n, 'p) world
     \<Rightarrow> ('n, 'p, 'x) promise \<times> ('n, 'p) world" where
  "findAll bookshelf bookshelfToApp arguments w =
     (let bConvertResultToJson = default_param (param arguments 2) (JsBool True) in
      case apply_static bookshelf FindAll arguments w of (promise, w') \<Rightarrow>
        (chain promise
          [Then (\<lambda>model.
             if \<not> truthy bConvertResultToJson then Inr model
             else if \<not> truthy model then Inr JsNull
             else call_toJSON bookshelf model),
           Catch is_Bookshelf_NotFoundError (\<lambda>_. Inl (NotFoundError ''NotFoundError'')),
           Catch is_Bookshelf_EmptyError (\<lambda>_. Inl (NotFoundError ''NotFoundError'')),
           CatchAll (\<lambda>err. Inl (bookshelfToApp err))],
         w'))"

text \<open>
  \<^verbatim>\<open>findWhere\<close> calls \<^verbatim>\<open>this.findAll(filter, options, bConvertResultToJson)\<close>: always three
  arguments, the third after its default has been applied.
\<close>

definition findWhere ::
  "('n, 'p, 'x) bookshelf \<Rightarrow> ('x error \<Rightarrow> 'x error) \<Rightarrow> ('n, 'p) js list \<Rightarrow> ('n, 'p) world
     \<Rightarrow> ('n, 'p, 'x) promise \<times> ('n, 'p) world" where
  "findWhere bookshelf bookshelfToApp arguments w =
     (let filter_arg = param arguments 0;
          options = param arguments 1;
          bConvertResultToJson = default_param (param arguments 2) (JsBool True)
      in findAll bookshelf bookshelfToApp [filter_arg, options, bConvertResultToJson] w)"

definition findById ::
  "('n, 'p, 'x) bookshelf \<Rightarrow> ('x error \<Rightarrow> 'x error) \<Rightarrow> ('n, 'p) js list \<Rightarrow> ('n, 'p) world
     \<Rightarrow> ('n, 'p, 'x) promise \<times> ('n, 'p) world" where
  "findById bookshelf bookshelfToApp arguments w =
     (let bConvertResultToJson = default_param (param arguments 2) (JsBool True) in
      case apply_static bookshelf FindById arguments w of (promise, w') \<Rightarrow>
        (chain promise
          [Then (\<lambda>model.
             if \<not> truthy bConvertResultToJson then Inr model
             else if \<not> truthy model then Inr JsNull
             else call_toJSON bookshelf model),
           Catch is_Bookshelf_NotFoundError (\<lambda>_. Inl (NotFoundError ''NotFoundError'')),
           Catch is_Bookshelf_EmptyError (\<lambda>_. Inl (NotFoundError ''NotFoundError'')),
           CatchAll (\<lambda>err. Inl (bookshelfToApp err))],
         w'))"

definition findOrCreate ::
  "('n, 'p, 'x) bookshelf \<Rightarrow> ('x error \<Rightarrow> 'x error) \<Rightarrow> ('n, 'p) js list \<Rightarrow> ('n, 'p) world
     \<Rightarrow> ('n, 'p, 'x) promise \<times> ('n, 'p) world" where
  "findOrCreate bookshelf bookshelfToApp arguments w =
     (let bConvertResultToJson = default_param (param arguments 2) (JsBool True) in
      case apply_static bookshelf FindOrCreate arguments w of (promise, w') \<Rightarrow>
        (chain promise
          [Then (\<lambda>model.
             if \<not> truthy bConvertResultToJson then Inr model
             else if \<not> truthy model then Inr JsNull
             else call_toJSON bookshelf model),
           Catch is_Bookshelf_NotFoundError (\<lambda>_. Inl (NotFoundError ''NotFoundError'')),
           Catch is_Bookshelf_EmptyError (\<lambda>_. Inl (NotFoundError ''NotFoundError'')),
           CatchAll (\<lambda>err. Inl (bookshelfToApp err))],
         w'))"

definition update ::
  "('n, 'p, 'x) bookshelf \<Rightarrow> ('x error \<Rightarrow> 'x error) \<Rightarrow> ('n, 'p) js list \<Rightarrow> ('n, 'p) world
     \<Rightarrow> ('n, 'p, 'x) promise \<times> ('n, 'p) world" where
  "update bookshelf bookshelfToApp arguments w =
     (let bConvertResultToJson = default_param (param arguments 2) (JsBool True) in
      case apply_static bookshelf Update arguments w of (promise, w') \<Rightarrow>
        (chain promise
          [Then (\<lambda>model.
             if \<not> truthy bConvertResultToJson then Inr model
             else if \<not> truthy model then Inr JsNull
             else call_toJSON bookshelf model),
           Catch is_Bookshelf_NotFoundError (\<lambda>_. Inl (NotFoundError ''NotFoundError'')),
           Catch is_Bookshelf_EmptyError (\<lambda>_. Inl (NotFoundError ''NotFoundError'')),
           Catch is_Bookshelf_NoRowsUpdatedError
             (\<lambda>_. Inl (NoRowsUpdatedError ''NoRowsUpdatedError'')),
           CatchAll (\<lambda>err. Inl (bookshelfToApp err))],
         w'))"

definition upsert ::
  "('n, 'p, 'x) bookshelf \<Rightarrow> ('x error \<Rightarrow> 'x error) \<Rightarrow> ('n, 'p) js list \<Rightarrow> ('n, 'p) world
     \<Rightarrow> ('n, 'p, 'x) promise \<times> ('n, 'p) world" where
  "upsert bookshelf bookshelfToApp arguments w =
     (let bConvertResultToJson = default_param (param arguments 3) (JsBool True) in
      case apply_static bookshelf Upsert arguments w of (promise, w') \<Rightarrow>
        (chain promise
          [Then (\<lambda>model.
             if \<not> truthy bConvertResultToJson then Inr model
             else if \<not> truthy model then Inr JsNull
             else call_toJSON bookshelf model),
           Catch is_Bookshelf_NotFoundError (\<lambda>_. Inl (NotFoundError ''NotFoundError'')),
           Catch is_Bookshelf_EmptyError (\<lambda>_. Inl (NotFoundError ''NotFoundError'')),
           Catch is_Bookshelf_NoRowsUpdatedError
             (\<lambda>_. Inl (NoRowsUpdatedError ''NoRowsUpdatedError'')),
           CatchAll (\<lambda>err. Inl (bookshelfToApp err))],
         w'))"

section \<open>Calling an operation by name\<close>

text \<open>A call of the static method of the Model Definition with the given name.\<close>

fun call_op ::
  "('n, 'p, 'x) bookshelf \<Rightarrow> ('x error \<Rightarrow> 'x error) \<Rightarrow> operation \<Rightarrow> ('n, 'p) js list
     \<Rightarrow> ('n, 'p) world \<Rightarrow> ('n, 'p, 'x) promise \<times> ('n, 'p) world" where
  "call_op b t FindOne = findOne b t"
| "call_op b t Create = create b t"
| "call_op b t Destroy = destroy b t"
| "call_op b t FindAll = findAll b t"
| "call_op b t FindWhere = findWhere b t"
| "call_op b t FindById = findById b t"
| "call_op b t FindOrCreate = findOrCreate b t"
| "call_op b t Update = update b t"
| "call_op b t Upsert = upsert b t"

text \<open>A sequence of calls, each on the world the one before left.\<close>

fun call_ops ::
  "('n, 'p, 'x) bookshelf \<Rightarrow> ('x error \<Rightarrow> 'x error) \<Rightarrow> (operation \<times> ('n, 'p) js list) list
     \<Rightarrow> ('n, 'p) world \<Rightarrow> ('n, 'p) world" where
  "call_ops b t [] w = w"
| "call_ops b t (c # cs) w = call_ops b t cs (snd (call_op b t (fst c) (snd c) w))"

text \<open>
  What the theorems below need to speak of "the underlying library's call" of an operation:
  the static method it delegates to, the position of its conversion flag, the argument list
  it hands over, and the promise the library returns for that call.
\<close>

fun delegate_of :: "operation \<Rightarrow> operation" where
  "delegate_of FindWhere = FindAll"
| "delegate_of name = name"


fun forwarded :: "operation \<Rightarrow> ('n, 'p) js list \<Rightarrow> ('n, 'p) js list" where
  "forwarded FindWhere arguments =
     [param arguments 0, param arguments 1, default_param (param arguments 2) (JsBool True)]"
| "forwarded name arguments = arguments"

definition delegated ::
  "('n, 'p, 'x) bookshelf \<Rightarrow> operation \<Rightarrow> ('n, 'p) js list \<Rightarrow> ('n, 'p) world
     \<Rightarrow> ('n, 'p, 'x) promise" where
  "delegated b name arguments w =
     fst (apply_static b (delegate_of name) (forwarded name arguments) w)"

section \<open>The translation utility\<close>

text \<open>
  Modelled from the spec: \<^verbatim>\<open>CommonErrors.utils.bookshelfToApp\<close> is code of the package
  \<^verbatim>\<open>quantal-errors\<close> and is not under \<^verbatim>\<open>src/\<close>. The spec: "a generic translation step that maps
  database-level error shapes to the application's error taxonomy; unrecognized errors are
  forwarded unchanged". The shapes it recognises are a table, \<open>shapes\<close>; the signals of the
  data-mapper, the application's own errors and JavaScript's errors are not database-level
  shapes.
\<close>

definition bookshelfToApp :: "('x \<Rightarrow> 'x error option) \<Rightarrow> 'x error \<Rightarrow> 'x error" where
  "bookshelfToApp shapes err =
     (case err of
        OtherError x \<Rightarrow> (case shapes x of Some appError \<Rightarrow> appError | None \<Rightarrow> err)
      | _ \<Rightarrow> err)"

section \<open>A runtime for examples\<close>

text \<open>
  A handle whose every static call settles with the same promise; rows are numbers and the
  plain representation of a row is the number itself.
\<close>

definition stub_bookshelf :: "(nat, nat, string) promise \<Rightarrow> (nat, nat, string) bookshelf" where
  "stub_bookshelf promise = \<lparr>Model_static = (\<lambda>calls name this arguments. promise), toJSON = (\<lambda>n. n)\<rparr>"


definition stub_world :: "(nat, nat) world" where
  "stub_world = \<lparr>this_model = \<lparr>validate = JsUndefined\<rparr>, external_calls = []\<rparr>"

section \<open>Simplification of the promise chains\<close>

lemma default_param_idem [simp]:
  "default_param (default_param v (JsBool True)) (JsBool True) = default_param v (JsBool True)"
  by (cases v) (simp_all add: default_param_def)

lemma param_triple [simp]:
  "param [a, b, c] 0 = a" "param [a, b, c] (Suc 0) = b" "param [a, b, c] 2 = c"
  by (simp_all add: param_def)

lemmas operation_defs =
  findOne_def create_def destroy_def findAll_def findWhere_def findById_def findOrCreate_def
  update_def upsert_def apply_static_def chain_def delegated_def

lemma this_model_call_op: "this_model (snd (call_op b t name arguments w)) = this_model w"
  by (cases name) (simp_all add: operation_defs Let_def)

lemma call_toJSON_static [simp]:
  "call_toJSON (b\<lparr>Model_static := f\<rparr>) model = call_toJSON b model"
  by (cases model) (simp_all add: call_toJSON_def)

lemma delegated_stub [simp]: "delegated (stub_bookshelf promise) name arguments w = promise"
  by (simp add: delegated_def apply_static_def stub_bookshelf_def)

lemma Model_static_stub [simp]: "Model_static (stub_bookshelf promise) calls name d arguments = promise"
  by (simp add: stub_bookshelf_def)

lemma toJSON_stub [simp]: "toJSON (stub_bookshelf promise) n = n"
  by (simp add: stub_bookshelf_def)

section \<open>Error normalisation\<close>

text \<open>
  C1. The claim: in every operation, \<^verbatim>\<open>destroy\<close> included, a rejection of the library's call
  with its "not found" or its "empty result" signal becomes a rejection with NotFoundError.
  \<^verbatim>\<open>destroy\<close> has no \<^verbatim>\<open>.catch(bookshelf.EmptyError, ...)\<close>: with a translation that forwards what
  it does not recognise, \<^verbatim>\<open>destroy\<close> rejects with the library's EmptyError itself, where
  \<^verbatim>\<open>update\<close>, on the same rejection, rejects with NotFoundError.
\<close>

theorem destroy_misses_empty_error:
  "fst (destroy (stub_bookshelf (Inl (Bookshelf_EmptyError ''EmptyResponse'')))
         (bookshelfToApp (\<lambda>x. None)) [Plain 7] stub_world)
     = Inl (Bookshelf_EmptyError ''EmptyResponse'')
   \<and> fst (update (stub_bookshelf (Inl (Bookshelf_EmptyError ''EmptyResponse'')))
         (bookshelfToApp (\<lambda>x. None)) [Plain 1, Plain 7] stub_world)
     = Inl (NotFoundError ''NotFoundError'')"
  by (simp add: operation_defs Let_def stub_world_def bookshelfToApp_def)

text \<open>
  C4. When the library's call rejects with its "no rows deleted" signal, \<^verbatim>\<open>destroy\<close> rejects
  with NoRowsDeletedError; when it rejects with its "no rows updated" signal, \<^verbatim>\<open>update\<close> and
  \<^verbatim>\<open>upsert\<close> reject with NoRowsUpdatedError. The rejection made by the filtered catch still
  passes the last \<^verbatim>\<open>.catch\<close> of the chain, so the error the caller sees is the translation of
  the application-level error: it is that error when the translation forwards it unchanged.
\<close>

theorem no_rows_signals:
  "(delegated b Destroy arguments w = Inl (Bookshelf_NoRowsDeletedError x) \<and>
      t (NoRowsDeletedError ''NoRowsDeletedError'') = NoRowsDeletedError ''NoRowsDeletedError'' \<longrightarrow>
      fst (destroy b t arguments w) = Inl (NoRowsDeletedError ''NoRowsDeletedError'')) \<and>
   (delegated b Update arguments w = Inl (Bookshelf_NoRowsUpdatedError x) \<and>
      t (NoRowsUpdatedError ''NoRowsUpdatedError'') = NoRowsUpdatedError ''NoRowsUpdatedError'' \<longrightarrow>
      fst (update b t arguments w) = Inl (NoRowsUpdatedError ''NoRowsUpdatedError'')) \<and>
   (delegated b Upsert arguments w = Inl (Bookshelf_NoRowsUpdatedError x) \<and>
      t (NoRowsUpdatedError ''NoRowsUpdatedError'') = NoRowsUpdatedError ''NoRowsUpdatedError'' \<longrightarrow>
      fst (upsert b t arguments w) = Inl (NoRowsUpdatedError ''NoRowsUpdatedError''))"
  by (simp add: operation_defs Let_def)

theorem no_rows_signals_witness:
  "fst (destroy (stub_bookshelf (Inl (Bookshelf_NoRowsDeletedError ''No Rows Deleted'')))
         (bookshelfToApp (\<lambda>x. None)) [Plain 7] stub_world)
     = Inl (NoRowsDeletedError ''NoRowsDeletedError'')
   \<and> fst (update (stub_bookshelf (Inl (Bookshelf_NoRowsUpdatedError ''No Rows Updated'')))
         (bookshelfToApp (\<lambda>x. None)) [Plain 1, Plain 7] stub_world)
     = Inl (NoRowsUpdatedError ''NoRowsUpdatedError'')
   \<and> fst (upsert (stub_bookshelf (Inl (Bookshelf_NoRowsUpdatedError ''No Rows Updated'')))
         (bookshelfToApp (\<lambda>x. None)) [Plain 1, Plain 2, Plain 7] stub_world)
     = Inl (NoRowsUpdatedError ''NoRowsUpdatedError'')"
proof -
  have forwards: "bookshelfToApp (\<lambda>x::string. None) (NoRowsDeletedError m) = NoRowsDeletedError m"
    "bookshelfToApp (\<lambda>x::string. None) (NoRowsUpdatedError m) = NoRowsUpdatedError m" for m
    by (simp_all add: bookshelfToApp_def)
  show ?thesis
    using
      no_rows_signals [of "stub_bookshelf (Inl (Bookshelf_NoRowsDeletedError ''No Rows Deleted''))"
        "[Plain 7]" stub_world "''No Rows Deleted''" "bookshelfToApp (\<lambda>x. None)"]
      no_rows_signals [of "stub_bookshelf (Inl (Bookshelf_NoRowsUpdatedError ''No Rows Updated''))"
        "[Plain 1, Plain 7]" stub_world "''No Rows Updated''" "bookshelfToApp (\<lambda>x. None)"]
      no_rows_signals [of "stub_bookshelf (Inl (Bookshelf_NoRowsUpdatedError ''No Rows Updated''))"
        "[Plain 1, Plain 2, Plain 7]" stub_world "''No Rows Updated''" "bookshelfToApp (\<lambda>x. None)"]
    by (simp add: forwards)
qed

text \<open>
  C6. When the library's call rejects, the operation rejects (no error is suppressed) and
  has made that one call only (nothing is retried). When the reason is none of the four
  signals, the operation rejects with the translation of that reason; with the translation
  utility as the spec describes it, a reason it does not recognise is the reason the caller
  sees.
\<close>

theorem other_errors_translated:
  "delegated b name arguments w = Inl e \<Longrightarrow>
     isl (fst (call_op b t name arguments w)) \<and>
     length (external_calls (snd (call_op b t name arguments w))) = Suc (length (external_calls w)) \<and>
     (\<not> is_Bookshelf_NotFoundError e \<and> \<not> is_Bookshelf_EmptyError e \<and>
      \<not> is_Bookshelf_NoRowsDeletedError e \<and> \<not> is_Bookshelf_NoRowsUpdatedError e \<longrightarrow>
        fst (call_op b t name arguments w) = Inl (t e) \<and>
        ((\<forall>x. e = OtherError x \<longrightarrow> shapes x = None) \<longrightarrow>
           fst (call_op b (bookshelfToApp shapes) name arguments w) = Inl e))"
  by (cases name; cases e) (simp_all add: operation_defs Let_def bookshelfToApp_def)

theorem other_errors_translated_witness:
  "isl (fst (call_op (stub_bookshelf (Inl (OtherError ''ECONNREFUSED''))) (\<lambda>e. OtherError ''mapped'')
          FindAll [Plain 7] stub_world))
   \<and> fst (call_op (stub_bookshelf (Inl (OtherError ''ECONNREFUSED''))) (\<lambda>e. OtherError ''mapped'')
          FindAll [Plain 7] stub_world) = Inl (OtherError ''mapped'')
   \<and> fst (call_op (stub_bookshelf (Inl (OtherError ''ECONNREFUSED'')))
          (bookshelfToApp (\<lambda>x. if x = ''23505'' then Some (OtherError ''AlreadyExists'') else None))
          FindAll [Plain 7] stub_world) = Inl (OtherError ''ECONNREFUSED'')"
proof -
  have rejects: "delegated (stub_bookshelf (Inl (OtherError ''ECONNREFUSED''))) FindAll [Plain 7]
      stub_world = Inl (OtherError ''ECONNREFUSED'')"
    by simp
  show ?thesis
    using other_errors_translated [OF rejects, of "\<lambda>e. OtherError ''mapped''"
        "\<lambda>x. if x = ''23505'' then Some (OtherError ''AlreadyExists'') else None"]
    by simp
qed

text \<open>
  C10. When one of the four signals is caught, the error built in its place has a fixed
  message, and what the caller sees is the translation of that fixed error: nothing of the
  library's error (its argument \<open>x\<close>) is in it.
\<close>

theorem resignalled_error_is_constant:
  "delegated b name arguments w = Inl e \<Longrightarrow>
     (is_Bookshelf_NotFoundError e \<longrightarrow>
        fst (call_op b t name arguments w) = Inl (t (NotFoundError ''NotFoundError''))) \<and>
     (is_Bookshelf_EmptyError e \<and> name \<noteq> Destroy \<longrightarrow>
        fst (call_op b t name arguments w) = Inl (t (NotFoundError ''NotFoundError''))) \<and>
     (is_Bookshelf_NoRowsDeletedError e \<and> name = Destroy \<longrightarrow>
        fst (call_op b t name arguments w) = Inl (t (NoRowsDeletedError ''NoRowsDeletedError''))) \<and>
     (is_Bookshelf_NoRowsUpdatedError e \<and> name \<in> {Update, Upsert} \<longrightarrow>
        fst (call_op b t name arguments w) = Inl (t (NoRowsUpdatedError ''NoRowsUpdatedError'')))"
  by (cases name; cases e) (simp_all add: operation_defs Let_def)

theorem resignalled_error_is_constant_witness:
  "fst (call_op (stub_bookshelf (Inl (Bookshelf_NotFoundError ''EmptyResponse''))) id
          FindOne [Plain 7] stub_world) = Inl (NotFoundError ''NotFoundError'')
   \<and> fst (call_op (stub_bookshelf (Inl (Bookshelf_EmptyError ''EmptyResponse''))) id
          FindAll [Plain 7] stub_world) = Inl (NotFoundError ''NotFoundError'')
   \<and> fst (call_op (stub_bookshelf (Inl (Bookshelf_NoRowsDeletedError ''No Rows Deleted''))) id
          Destroy [Plain 7] stub_world) = Inl (NoRowsDeletedError ''NoRowsDeletedError'')
   \<and> fst (call_op (stub_bookshelf (Inl (Bookshelf_NoRowsUpdatedError ''No Rows Updated''))) id
          Upsert [Plain 1, Plain 2] stub_world) = Inl (NoRowsUpdatedError ''NoRowsUpdatedError'')"
  using
    resignalled_error_is_constant [where b = "stub_bookshelf (Inl (Bookshelf_NotFoundError ''EmptyResponse''))"
      and e = "Bookshelf_NotFoundError ''EmptyResponse''" and name = FindOne
      and arguments = "[Plain 7]" and w = stub_world and t = id]
    resignalled_error_is_constant [where b = "stub_bookshelf (Inl (Bookshelf_EmptyError ''EmptyResponse''))"
      and e = "Bookshelf_EmptyError ''EmptyResponse''" and name = FindAll
      and arguments = "[Plain 7]" and w = stub_world and t = id]
    resignalled_error_is_constant [where b = "stub_bookshelf (Inl (Bookshelf_NoRowsDeletedError ''No Rows Deleted''))"
      and e = "Bookshelf_NoRowsDeletedError ''No Rows Deleted''" and name = Destroy
      and arguments = "[Plain 7]" and w = stub_world and t = id]
    resignalled_error_is_constant [where b = "stub_bookshelf (Inl (Bookshelf_NoRowsUpdatedError ''No Rows Updated''))"
      and e = "Bookshelf_NoRowsUpdatedError ''No Rows Updated''" and name = Upsert
      and arguments = "[Plain 1, Plain 2]" and w = stub_world and t = id]
  by simp

section \<open>Conversion of results\<close>




section \<open>Forwarding of the arguments\<close>



section \<open>The Model Definition\<close>

text \<open>
  C9. No sequence of operation calls changes the Model Definition, its validation schema
  included; and an operation uses the definition only by handing it to the library as
  \<^verbatim>\<open>this\<close>: when the library's answer does not depend on \<^verbatim>\<open>this\<close>, neither does the operation's.
\<close>

theorem model_definition_unchanged:
  "this_model (call_ops b t cs w) = this_model w \<and>
   ((\<forall>calls nm d d' a. Model_static b calls nm d a = Model_static b calls nm d' a) \<longrightarrow>
      fst (call_op b t name arguments (w\<lparr>this_model := d0\<rparr>)) = fst (call_op b t name arguments w))"
proof
  show "this_model (call_ops b t cs w) = this_model w"
    by (induction cs arbitrary: w) (simp_all add: this_model_call_op)
  show "(\<forall>calls nm d d' a. Model_static b calls nm d a = Model_static b calls nm d' a) \<longrightarrow>
      fst (call_op b t name arguments (w\<lparr>this_model := d0\<rparr>)) = fst (call_op b t name arguments w)"
  proof
    assume "\<forall>calls nm d d' a. Model_static b calls nm d a = Model_static b calls nm d' a"
    then have same: "Model_static b calls nm d0 a = Model_static b calls nm (this_model w) a"
      for calls nm a
      by blast
    show "fst (call_op b t name arguments (w\<lparr>this_model := d0\<rparr>)) = fst (call_op b t name arguments w)"
      by (cases name) (simp_all add: operation_defs Let_def same)
  qed
qed

theorem model_definition_unchanged_witness:
  "this_model (call_ops (stub_bookshelf (Inr (Native 3))) id
       [(Create, [Plain 1]), (Update, [Plain 2, Plain 1]), (Destroy, [Plain 1])]
       (stub_world\<lparr>this_model := \<lparr>validate = Plain 9\<rparr>\<rparr>))
     = \<lparr>validate = Plain 9\<rparr>
   \<and> fst (call_op (stub_bookshelf (Inr (Native 3))) id FindOne [Plain 1]
        (stub_world\<lparr>this_model := \<lparr>validate = Plain 9\<rparr>\<rparr>))
     = fst (call_op (stub_bookshelf (Inr (Native 3))) id FindOne [Plain 1] stub_world)"
  using
    model_definition_unchanged [of "stub_bookshelf (Inr (Native 3))" id
      "[(Create, [Plain 1]), (Update, [Plain 2, Plain 1]), (Destroy, [Plain 1])]"
      "stub_world\<lparr>this_model := \<lparr>validate = Plain 9\<rparr>\<rparr>"]
    model_definition_unchanged [of "stub_bookshelf (Inr (Native 3))" id "[]" stub_world
      FindOne "[Plain 1]" "\<lparr>validate = Plain 9\<rparr>"]
  by simp

section \<open>Construction\<close>

text \<open>
  C3. Called with a missing handle, the factory throws IllegalArgumentError and has made no
  call into the runtime (nothing asynchronous was started); called with a handle, it does
  not throw and returns the Model Definition.
\<close>

theorem factory_requires_handle:
  "BaseModel None params validations calls =
     (Inl (IllegalArgumentError ''An initialised instance of bookshelf is required''), calls)
   \<and> fst (BaseModel (Some b) params validations calls) = Inr \<lparr>validate = validations\<rparr>"
  by (simp add: BaseModel_def)

text \<open>
  C7, as the code has it. The factory has no initialisation check: every call with a handle
  calls \<^verbatim>\<open>bookshelf.plugin\<close> with the extension, so two calls on one handle ask for the
  extension to be installed twice.
\<close>

theorem factory_installs_every_time:
  "snd (BaseModel (Some b) params validations calls) =
     calls @ [Require_modelbase params, Plugin_pluggable]
   \<and> count_list (snd (BaseModel (Some b) params' validations'
                   (snd (BaseModel (Some b) params validations calls)))) Plugin_pluggable
     = count_list calls Plugin_pluggable + 2"
  by (simp add: BaseModel_def)

text \<open>
  C7, as the claim has it, fails: after two calls of the factory on one handle, starting from
  no call at all, \<^verbatim>\<open>bookshelf.plugin\<close> has been called with the extension twice.
\<close>

theorem factory_guard_counterexample:
  "count_list (snd (BaseModel (Some (stub_bookshelf (Inr JsNull))) JsUndefined JsUndefined
       (snd (BaseModel (Some (stub_bookshelf (Inr JsNull))) JsUndefined JsUndefined []))))
     Plugin_pluggable = 2"
  by (simp add: BaseModel_def)

section \<open>findWhere\<close>

text \<open>
  C5. \<^verbatim>\<open>findWhere(filter, options, flag)\<close> settles as \<^verbatim>\<open>findAll(filter, options, flag)\<close> does,
  and leaves the same world, for every filter, options bag and boolean flag.
\<close>

theorem findWhere_is_findAll:
  "findWhere b t [filter_arg, options, JsBool flag] w = findAll b t [filter_arg, options, JsBool flag] w"
  by (simp add: findWhere_def default_param_def)

end
